theory Spec2Isabelle
  imports Complex_Main "HOL-Library.Log_Nat"
begin

section \<open>Data model\<close>

text \<open>
  The C program keeps its whole session in globals (\<^verbatim>\<open>sprite\<close>, \<^verbatim>\<open>lines\<close>,
  \<^verbatim>\<open>lineCapacity\<close>, \<^verbatim>\<open>lineCount\<close>, the three key flags of \<^verbatim>\<open>events.c\<close>) and in
  two locals of \<^verbatim>\<open>main\<close> that are passed by pointer (\<^verbatim>\<open>windowWidth\<close>,
  \<^verbatim>\<open>windowHeight\<close>). They are gathered in one record that every function takes and
  returns.

  The \<^verbatim>\<open>float\<close> fields are modelled by \<^typ>\<open>real\<close>.  In \<open>handle_events\<close> and in
  \<open>update_location\<close> arithmetic is exact: there is no rounding, no infinity and no
  NaN, and every concrete input evaluated with them uses values that binary32
  represents exactly and whose intermediate results it represents exactly too.  Where
  a property depends on how a sum is rounded, as the bounds on the stored position do,
  it is stated on \<open>update_location_binary32\<close>, which rounds after every operation as
  the compiled code does.
\<close>

datatype TurnDirection = TURN_LEFT | TURN_RIGHT

record Sprite =
  x :: real
  y :: real
  angle :: real
  turn :: TurnDirection
  pen :: bool
  r :: real
  g :: real
  b :: real

text \<open>
  The colour fields of \<^verbatim>\<open>Line\<close> are \<^verbatim>\<open>r\<close>, \<^verbatim>\<open>g\<close>, \<^verbatim>\<open>b\<close> in the source; they carry
  a prefix here because the selectors of both records live in one name space.
\<close>

record Line =
  x1 :: real
  y1 :: real
  x2 :: real
  y2 :: real
  line_r :: real
  line_g :: real
  line_b :: real

text \<open>
  \<^verbatim>\<open>lines\<close> holds the first \<^verbatim>\<open>lineCount\<close> slots of the heap buffer, the only ones ever
  read; \<^verbatim>\<open>lineCount\<close> is the length of that list.  \<^verbatim>\<open>stdout\<close> collects what
  \<^verbatim>\<open>printf\<close> writes, one entry per line of output.  \<^verbatim>\<open>projection\<close> is the size last
  handed to \<^verbatim>\<open>glViewport\<close> and \<^verbatim>\<open>gluOrtho2D\<close>.
\<close>

record program_state =
  sprite :: Sprite
  lines :: "Line list"
  lineCapacity :: int
  keyLeftPressed :: bool
  keyRightPressed :: bool
  keyUpPressed :: bool
  windowWidth :: int
  windowHeight :: int
  projection :: "int \<times> int"
  stdout :: "string list"

definition lineCount :: "program_state \<Rightarrow> int" where
  "lineCount s = int (length (lines s))"

datatype SDL_Keycode =
  SDLK_RIGHT | SDLK_LEFT | SDLK_UP | SDLK_d | SDLK_u
| SDLK_1 | SDLK_2 | SDLK_3 | SDLK_4 | SDLK_5 | SDLK_ESCAPE | SDLK_OTHER

datatype SDL_WindowEventID = SDL_WINDOWEVENT_RESIZED | SDL_WINDOWEVENT_OTHER

datatype SDL_Event =
  SDL_QUIT
| SDL_KEYDOWN SDL_Keycode
| SDL_KEYUP SDL_Keycode
| SDL_WINDOWEVENT SDL_WindowEventID int int
| SDL_OTHER

text \<open>The two ways the process ends with \<^verbatim>\<open>exit(1)\<close> / \<^verbatim>\<open>return 1\<close>.\<close>

datatype fatal = Init_failed | Out_of_memory

section \<open>Binary floating point\<close>

text \<open>
  The value of a real number after rounding to a binary format with \<open>p\<close> significant
  bits whose smallest subnormal is \<open>2 powi emin\<close>: round to nearest, ties to the even
  significand (the default rounding mode).  \<open>binade v\<close> is the exponent \<open>e\<close> with
  \<open>2 powi e \<le> \<bar>v\<bar> < 2 powi (e + 1)\<close>.  Overflow to infinity is left out: the formats
  are treated as unbounded above, which is exact for every magnitude below \<open>2 ^ 128\<close>
  (binary32) and \<open>2 ^ 1024\<close> (binary64).
\<close>

definition round_half_even :: "real \<Rightarrow> int" where
  "round_half_even t =
    (let n = \<lfloor>t\<rfloor>; f = t - of_int n
     in if f < 1 / 2 then n else if 1 / 2 < f then n + 1 else if even n then n else n + 1)"

definition binade :: "real \<Rightarrow> int" where
  "binade v =
    (if 1 \<le> \<bar>v\<bar> then bitlen \<lfloor>\<bar>v\<bar>\<rfloor> - 1 else - bitlen (\<lceil>1 / \<bar>v\<bar>\<rceil> - 1))"

definition binary_round :: "nat \<Rightarrow> int \<Rightarrow> real \<Rightarrow> real" where
  "binary_round p emin v =
    (if v = 0 then 0
     else (let e = max (binade v - (int p - 1)) emin
           in of_int (round_half_even (v / 2 powi e)) * 2 powi e))"

definition binary32 :: "real \<Rightarrow> real" where
  "binary32 = binary_round 24 (- 149)"

definition binary64 :: "real \<Rightarrow> real" where
  "binary64 = binary_round 53 (- 1074)"



text \<open>\<^verbatim>\<open>M_PI\<close> of \<^verbatim>\<open>math.h\<close>: the binary64 number nearest to \<open>\<pi>\<close>.\<close>

definition M_PI :: real where
  "M_PI = 884279719003555 / 281474976710656"

section \<open>sprite.c\<close>

definition MOVE_INCREMENT :: real where
  "MOVE_INCREMENT = 200"

text \<open>
  \<^verbatim>\<open>update_location\<close> in exact arithmetic.  It is what \<open>handle_events\<close> calls; the
  version with binary32 rounding follows it.
\<close>

definition update_location :: "real \<Rightarrow> int \<Rightarrow> int \<Rightarrow> program_state \<Rightarrow> program_state" where
  "update_location deltaTime wW wH s =
    (let deltaX = MOVE_INCREMENT * cos (angle (sprite s) * pi / 180) * deltaTime;
         deltaY = - MOVE_INCREMENT * sin (angle (sprite s) * pi / 180) * deltaTime;
         newX = x (sprite s) + deltaX;
         newY = y (sprite s) + deltaY;
         halfWidth = 25;
         halfHeight = 25;
         newX = (if newX - halfWidth < 0 then halfWidth
                 else if newX + halfWidth > real_of_int wW then real_of_int wW - halfWidth
                 else newX);
         newY = (if newY - halfHeight < 0 then halfHeight
                 else if newY + halfHeight > real_of_int wH then real_of_int wH - halfHeight
                 else newY)
     in s\<lparr>sprite := (sprite s)\<lparr>x := newX, y := newY\<rparr>\<rparr>)"

text \<open>
  \<^verbatim>\<open>update_location\<close> once more, with every rounding of the source written out.  The
  operands of \<^verbatim>\<open>cos\<close> and \<^verbatim>\<open>sin\<close> and the two products are \<^verbatim>\<open>double\<close> (\<^verbatim>\<open>M_PI\<close> and the
  results of \<^verbatim>\<open>cos\<close> and \<^verbatim>\<open>sin\<close> are), the initialisation of \<^verbatim>\<open>deltaX\<close> and \<^verbatim>\<open>deltaY\<close>
  converts to \<^verbatim>\<open>float\<close>, and everything after that is \<^verbatim>\<open>float\<close> arithmetic, each
  operation rounded to binary32 before it is used or compared.  The host's \<^verbatim>\<open>cos\<close> and
  \<^verbatim>\<open>sin\<close> are parameters: the C library does not promise correctly rounded results.
\<close>

definition update_location_binary32 ::
  "(real \<Rightarrow> real) \<Rightarrow> (real \<Rightarrow> real) \<Rightarrow> real \<Rightarrow> int \<Rightarrow> int \<Rightarrow> program_state \<Rightarrow> program_state" where
  "update_location_binary32 libm_cos libm_sin deltaTime wW wH s =
    (let radians = binary64 (binary64 (angle (sprite s) * M_PI) / 180);
         deltaX = binary32 (binary64 (binary64 (MOVE_INCREMENT * libm_cos radians) * deltaTime));
         deltaY = binary32 (binary64 (binary64 (- MOVE_INCREMENT * libm_sin radians) * deltaTime));
         newX = binary32 (x (sprite s) + deltaX);
         newY = binary32 (y (sprite s) + deltaY);
         halfWidth = 25;
         halfHeight = 25;
         newX = (if binary32 (newX - halfWidth) < 0 then halfWidth
                 else if binary32 (newX + halfWidth) > binary32 (real_of_int wW)
                 then binary32 (binary32 (real_of_int wW) - halfWidth)
                 else newX);
         newY = (if binary32 (newY - halfHeight) < 0 then halfHeight
                 else if binary32 (newY + halfHeight) > binary32 (real_of_int wH)
                 then binary32 (binary32 (real_of_int wH) - halfHeight)
                 else newY)
     in s\<lparr>sprite := (sprite s)\<lparr>x := newX, y := newY\<rparr>\<rparr>)"

definition update_pen :: "bool \<Rightarrow> program_state \<Rightarrow> program_state" where
  "update_pen pen_state s = s\<lparr>sprite := (sprite s)\<lparr>pen := pen_state\<rparr>\<rparr>"

definition printf :: "string \<Rightarrow> program_state \<Rightarrow> program_state" where
  "printf msg s = s\<lparr>stdout := stdout s @ [msg]\<rparr>"

definition change_color :: "int \<Rightarrow> program_state \<Rightarrow> program_state" where
  "change_color color_option s =
    (if color_option = 1 then
       printf ''Color changed to Black'' (s\<lparr>sprite := (sprite s)\<lparr>r := 0, g := 0, b := 0\<rparr>\<rparr>)
     else if color_option = 2 then
       printf ''Color changed to Blue'' (s\<lparr>sprite := (sprite s)\<lparr>r := 0, g := 0, b := 1\<rparr>\<rparr>)
     else if color_option = 3 then
       printf ''Color changed to Red'' (s\<lparr>sprite := (sprite s)\<lparr>r := 1, g := 0, b := 0\<rparr>\<rparr>)
     else if color_option = 4 then
       printf ''Color changed to Green'' (s\<lparr>sprite := (sprite s)\<lparr>r := 0, g := 1, b := 0\<rparr>\<rparr>)
     else if color_option = 5 then
       printf ''Color changed to Yellow'' (s\<lparr>sprite := (sprite s)\<lparr>r := 1, g := 1, b := 0\<rparr>\<rparr>)
     else
       printf ''Invalid color option'' s)"

section \<open>graphics.c\<close>

text \<open>
  \<^verbatim>\<open>add_line\<close> doubles the capacity when the buffer is full and calls \<^verbatim>\<open>realloc\<close>;
  whether the host grants a buffer of \<open>n\<close> slots is the parameter \<open>realloc_ok n\<close>.  A
  refusal prints the error and ends the process.
\<close>

definition add_line ::
  "(int \<Rightarrow> bool) \<Rightarrow> real \<Rightarrow> real \<Rightarrow> real \<Rightarrow> real \<Rightarrow> program_state \<Rightarrow> fatal + program_state" where
  "add_line realloc_ok ax ay bx by s =
    (let grown = (if lineCount s \<ge> lineCapacity s
                  then (let cap = lineCapacity s * 2
                        in if \<not> realloc_ok cap then Inl Out_of_memory
                           else Inr (s\<lparr>lineCapacity := cap\<rparr>))
                  else Inr s)
     in case grown of
          Inl e \<Rightarrow> Inl e
        | Inr s' \<Rightarrow>
            Inr (s'\<lparr>lines := lines s' @
                   [\<lparr>x1 = ax, y1 = ay, x2 = bx, y2 = by,
                     line_r = r (sprite s'), line_g = g (sprite s'), line_b = b (sprite s')\<rparr>]\<rparr>))"

text \<open>
  The colour name that \<^verbatim>\<open>render_scene\<close> prints on the last line of the status overlay:
  the chain of conditional expressions passed to \<^verbatim>\<open>sprintf\<close>.
\<close>

definition line_color_name :: "Sprite \<Rightarrow> string" where
  "line_color_name sp =
    (if r sp = 0 \<and> g sp = 0 \<and> b sp = 0 then ''Black''
     else if r sp = 0 \<and> g sp = 0 \<and> b sp = 1 then ''Blue''
     else if r sp = 1 \<and> g sp = 0 \<and> b sp = 0 then ''Red''
     else if r sp = 0 \<and> g sp = 1 \<and> b sp = 0 then ''Green''
     else if r sp = 1 \<and> g sp = 1 \<and> b sp = 0 then ''Yellow''
     else ''Custom'')"

section \<open>events.c\<close>

definition ROTATION_INCREMENT :: real where
  "ROTATION_INCREMENT = 90"

text \<open>
  C's \<^verbatim>\<open>fmodf a m\<close> is \<open>a - n * m\<close> where \<open>n\<close> is \<open>a / m\<close> with its fraction cut off
  (rounded towards zero), so the result has the sign of \<open>a\<close>.  The program only calls
  it with \<open>m = 360\<close>.
\<close>

definition fmodf :: "real \<Rightarrow> real \<Rightarrow> real" where
  "fmodf a m = a - m * of_int (if a / m < 0 then \<lceil>a / m\<rceil> else \<lfloor>a / m\<rfloor>)"

text \<open>The decimal digits that \<^verbatim>\<open>printf\<close> writes for \<^verbatim>\<open>%d\<close>.\<close>

fun show_nat :: "nat \<Rightarrow> string" where
  "show_nat n =
    (if n < 10 then [char_of (48 + n)]
     else show_nat (n div 10) @ [char_of (48 + n mod 10)])"

definition show_int :: "int \<Rightarrow> string" where
  "show_int i = (if i < 0 then CHR ''-'' # show_nat (nat (- i)) else show_nat (nat i))"

text \<open>The body of the \<^verbatim>\<open>SDL_KEYDOWN\<close> case for every key but Escape.\<close>

fun key_down :: "SDL_Keycode \<Rightarrow> program_state \<Rightarrow> program_state" where
  "key_down SDLK_RIGHT s = s\<lparr>keyRightPressed := True\<rparr>"
| "key_down SDLK_LEFT s = s\<lparr>keyLeftPressed := True\<rparr>"
| "key_down SDLK_UP s = s\<lparr>keyUpPressed := True\<rparr>"
| "key_down SDLK_d s = update_pen True s"
| "key_down SDLK_u s = update_pen False s"
| "key_down SDLK_1 s = change_color 1 s"
| "key_down SDLK_2 s = change_color 2 s"
| "key_down SDLK_3 s = change_color 3 s"
| "key_down SDLK_4 s = change_color 4 s"
| "key_down SDLK_5 s = change_color 5 s"
| "key_down SDLK_ESCAPE s = s"
| "key_down SDLK_OTHER s = s"

fun key_up :: "SDL_Keycode \<Rightarrow> program_state \<Rightarrow> program_state" where
  "key_up SDLK_RIGHT s = s\<lparr>keyRightPressed := False\<rparr>"
| "key_up SDLK_LEFT s = s\<lparr>keyLeftPressed := False\<rparr>"
| "key_up SDLK_UP s = s\<lparr>keyUpPressed := False\<rparr>"
| "key_up k s = s"

fun window_event :: "SDL_WindowEventID \<Rightarrow> int \<Rightarrow> int \<Rightarrow> program_state \<Rightarrow> program_state" where
  "window_event SDL_WINDOWEVENT_RESIZED data1 data2 s =
     printf (''Window resized to '' @ show_int data1 @ '' x '' @ show_int data2)
       (s\<lparr>windowWidth := data1, windowHeight := data2, projection := (data1, data2)\<rparr>)"
| "window_event SDL_WINDOWEVENT_OTHER data1 data2 s = s"

text \<open>
  The \<^verbatim>\<open>while (SDL_PollEvent(&evt) != 0)\<close> loop.  The first argument is the queue of
  pending events, oldest first; each iteration takes its head.  The result is
  \<open>(False, q, s)\<close> when the loop was left by \<^verbatim>\<open>return false\<close>, with the events \<open>q\<close> that
  were never polled, and \<open>(True, [], s)\<close> when the queue ran empty.
\<close>

fun poll_events :: "SDL_Event list \<Rightarrow> program_state \<Rightarrow> bool \<times> SDL_Event list \<times> program_state" where
  "poll_events [] s = (True, [], s)"
| "poll_events (SDL_QUIT # q) s = (False, q, s)"
| "poll_events (SDL_KEYDOWN k # q) s =
     (if k = SDLK_ESCAPE then (False, q, s) else poll_events q (key_down k s))"
| "poll_events (SDL_KEYUP k # q) s = poll_events q (key_up k s)"
| "poll_events (SDL_WINDOWEVENT e data1 data2 # q) s = poll_events q (window_event e data1 data2 s)"
| "poll_events (SDL_OTHER # q) s = poll_events q s"

definition handle_events ::
  "(int \<Rightarrow> bool) \<Rightarrow> real \<Rightarrow> SDL_Event list \<Rightarrow> program_state
     \<Rightarrow> fatal + (bool \<times> SDL_Event list \<times> program_state)" where
  "handle_events realloc_ok deltaTime q s =
    (case poll_events q s of
       (False, q', s1) \<Rightarrow> Inr (False, q', s1)
     | (True, q', s1) \<Rightarrow>
        (let s2 = (if keyLeftPressed s1
                   then s1\<lparr>sprite := (sprite s1)
                          \<lparr>angle := fmodf (angle (sprite s1) + ROTATION_INCREMENT * deltaTime) 360\<rparr>\<rparr>
                   else s1);
             s3 = (if keyRightPressed s2
                   then s2\<lparr>sprite := (sprite s2)
                          \<lparr>angle := fmodf (angle (sprite s2) - ROTATION_INCREMENT * deltaTime + 360) 360\<rparr>\<rparr>
                   else s2)
         in if keyUpPressed s3 then
              (let previous_x = x (sprite s3);
                   previous_y = y (sprite s3);
                   s4 = update_location deltaTime (windowWidth s3) (windowHeight s3) s3
               in if pen (sprite s4) then
                    (case add_line realloc_ok previous_x previous_y (x (sprite s4)) (y (sprite s4)) s4 of
                       Inl e \<Rightarrow> Inl e
                     | Inr s5 \<Rightarrow> Inr (True, q', s5))
                  else Inr (True, q', s4))
            else Inr (True, q', s3)))"

section \<open>main.c\<close>

text \<open>
  What the host answers to each initialisation step of \<^verbatim>\<open>main\<close>, in the order in which
  \<^verbatim>\<open>main\<close> asks.
\<close>

record host_init =
  SDL_Init_ok :: bool
  SDL_CreateWindow_ok :: bool
  SDL_GL_CreateContext_ok :: bool
  IMG_Init_ok :: bool
  TTF_Init_ok :: bool
  init_font_ok :: bool
  malloc_ok :: bool
  load_sprite_ok :: bool

definition WINDOW_WIDTH :: int where
  "WINDOW_WIDTH = 800"

definition WINDOW_HEIGHT :: int where
  "WINDOW_HEIGHT = 800"

text \<open>
  The globals as their initialisers set them before \<^verbatim>\<open>main\<close> runs (a global without
  one is zeroed), and the two window dimensions as the first lines of \<^verbatim>\<open>main\<close> set them.
\<close>

definition static_init :: program_state where
  "static_init =
    \<lparr>sprite = \<lparr>x = 0, y = 0, angle = 0, turn = TURN_LEFT, pen = False, r = 0, g = 0, b = 0\<rparr>,
     lines = [],
     lineCapacity = 50,
     keyLeftPressed = False,
     keyRightPressed = False,
     keyUpPressed = False,
     windowWidth = WINDOW_WIDTH,
     windowHeight = WINDOW_HEIGHT,
     projection = (0, 0),
     stdout = []\<rparr>"

text \<open>\<^verbatim>\<open>main\<close> up to the first iteration of its loop.\<close>

definition startup :: "host_init \<Rightarrow> fatal + program_state" where
  "startup h =
    (let s = static_init in
     if \<not> SDL_Init_ok h then Inl Init_failed
     else if \<not> SDL_CreateWindow_ok h then Inl Init_failed
     else if \<not> SDL_GL_CreateContext_ok h then Inl Init_failed
     else if \<not> IMG_Init_ok h then Inl Init_failed
     else if \<not> TTF_Init_ok h then Inl Init_failed
     else if \<not> init_font_ok h then Inl Init_failed
     else if \<not> malloc_ok h then Inl Out_of_memory
     else (let s = s\<lparr>projection := (windowWidth s, windowHeight s)\<rparr> in
       if \<not> load_sprite_ok h then Inl Init_failed
       else Inr (s\<lparr>sprite := (sprite s)
                   \<lparr>x := real_of_int (windowWidth s) / 2,
                    y := real_of_int (windowHeight s) / 2,
                    angle := 0,
                    pen := False,
                    r := 0, g := 0, b := 0\<rparr>\<rparr>)))"

text \<open>
  The states of the session once \<^verbatim>\<open>main\<close> has entered its loop: the state after a
  successful start, and the state after each call of \<^verbatim>\<open>handle_events\<close>, which is the
  one \<^verbatim>\<open>render_scene\<close> then draws.  A frame may have any elapsed time (a difference of
  two unsigned tick counts, so never negative), any pending events and any behaviour of
  the allocator.  The second rule does not ask that the previous call returned \<open>True\<close>,
  so the set is at least as large as what the program reaches.
\<close>

inductive reachable :: "program_state \<Rightarrow> bool" where
  reachable_start: "startup h = Inr s \<Longrightarrow> reachable s"
| reachable_frame:
    "reachable s \<Longrightarrow> 0 \<le> deltaTime \<Longrightarrow>
     handle_events realloc_ok deltaTime q s = Inr (running, q', s') \<Longrightarrow> reachable s'"

section \<open>Notions used by the properties\<close>

text \<open>A quit request: the quit event, or the Escape key going down.\<close>

definition quit_request :: "SDL_Event \<Rightarrow> bool" where
  "quit_request e = (e = SDL_QUIT \<or> e = SDL_KEYDOWN SDLK_ESCAPE)"

text \<open>
  What one iteration of the polling loop does to the state for an event that is not a
  quit request: the edge-triggered transition of that event.
\<close>

fun edge_transition :: "SDL_Event \<Rightarrow> program_state \<Rightarrow> program_state" where
  "edge_transition (SDL_KEYDOWN k) s = key_down k s"
| "edge_transition (SDL_KEYUP k) s = key_up k s"
| "edge_transition (SDL_WINDOWEVENT e data1 data2) s = window_event e data1 data2 s"
| "edge_transition SDL_QUIT s = s"
| "edge_transition SDL_OTHER s = s"

definition apply_events :: "SDL_Event list \<Rightarrow> program_state \<Rightarrow> program_state" where
  "apply_events q s = foldl (\<lambda>s e. edge_transition e s) s q"

text \<open>
  The drain as the specification words it, for comparison with \<open>poll_events\<close>: every
  pending event is taken from the queue and its transition applied, a quit request is
  only noted, and the note decides the result once the queue is empty.
\<close>

definition spec_drain :: "SDL_Event list \<Rightarrow> program_state \<Rightarrow> bool \<times> SDL_Event list \<times> program_state" where
  "spec_drain q s = (\<not> list_ex quit_request q, [], apply_events q s)"

text \<open>The five entries of the palette.\<close>

definition palette_color :: "Sprite \<Rightarrow> bool" where
  "palette_color sp \<longleftrightarrow>
     (r sp, g sp, b sp) \<in> {(0, 0, 0), (0, 0, 1), (1, 0, 0), (0, 1, 0), (1, 1, 0)}"

text \<open>
  The three level-triggered blocks of \<open>handle_events\<close>, in the order in which it runs
  them after the polling loop; \<open>handle_events_blocks\<close> below shows that
  \<open>handle_events\<close> is their composition.
\<close>

definition rotate_left :: "real \<Rightarrow> program_state \<Rightarrow> program_state" where
  "rotate_left deltaTime s =
    (if keyLeftPressed s
     then s\<lparr>sprite := (sprite s)
            \<lparr>angle := fmodf (angle (sprite s) + ROTATION_INCREMENT * deltaTime) 360\<rparr>\<rparr>
     else s)"

definition rotate_right :: "real \<Rightarrow> program_state \<Rightarrow> program_state" where
  "rotate_right deltaTime s =
    (if keyRightPressed s
     then s\<lparr>sprite := (sprite s)
            \<lparr>angle := fmodf (angle (sprite s) - ROTATION_INCREMENT * deltaTime + 360) 360\<rparr>\<rparr>
     else s)"

definition move_forward ::
  "(int \<Rightarrow> bool) \<Rightarrow> real \<Rightarrow> program_state \<Rightarrow> fatal + program_state" where
  "move_forward realloc_ok deltaTime s =
    (if keyUpPressed s then
       (let s4 = update_location deltaTime (windowWidth s) (windowHeight s) s
        in if pen (sprite s4)
           then add_line realloc_ok (x (sprite s)) (y (sprite s)) (x (sprite s4)) (y (sprite s4)) s4
           else Inr s4)
     else Inr s)"

section \<open>Auxiliary facts\<close>

lemma handle_events_blocks:
  "handle_events realloc_ok deltaTime q s =
    (case poll_events q s of
       (running, q', s1) \<Rightarrow>
         if running
         then (case move_forward realloc_ok deltaTime
                      (rotate_right deltaTime (rotate_left deltaTime s1)) of
                 Inl e \<Rightarrow> Inl e
               | Inr s5 \<Rightarrow> Inr (True, q', s5))
         else Inr (False, q', s1))"
  by (simp add: handle_events_def rotate_left_def rotate_right_def move_forward_def Let_def
        split: prod.splits sum.splits)

subsection \<open>The remainder function\<close>

lemma fmodf_nonneg:
  assumes "0 \<le> a" "0 < m"
  shows "0 \<le> fmodf a m \<and> fmodf a m < m"
proof -
  have q: "\<not> a / m < 0" using assms by (simp add: not_less)
  have e: "fmodf a m = a - m * of_int \<lfloor>a / m\<rfloor>" using q by (simp add: fmodf_def)
  have l: "of_int \<lfloor>a / m\<rfloor> * m \<le> a" using assms(2) by (rule floor_divide_lower)
  have u: "a < (of_int \<lfloor>a / m\<rfloor> + 1) * m" using assms(2) by (rule floor_divide_upper)
  from l u show ?thesis unfolding e by (simp add: algebra_simps)
qed

lemma fmodf_congruent: "m \<noteq> 0 \<Longrightarrow> \<exists>k::int. fmodf a m = a + m * of_int k"
  unfolding fmodf_def
  by (rule exI [of _ "- (if a / m < 0 then \<lceil>a / m\<rceil> else \<lfloor>a / m\<rfloor>)"]) simp

text \<open>
  Turning left keeps the heading in range for every elapsed time; turning right does as
  long as the turn is no more than a full circle beyond the heading.
\<close>

lemma rotate_left_in_range:
  assumes "0 \<le> angle (sprite s)" "0 \<le> deltaTime"
  shows "0 \<le> angle (sprite (rotate_left deltaTime s)) \<and>
         (keyLeftPressed s \<longrightarrow> angle (sprite (rotate_left deltaTime s)) < 360)"
  using assms fmodf_nonneg [of "angle (sprite s) + 90 * deltaTime" 360]
  by (simp add: rotate_left_def ROTATION_INCREMENT_def)

lemma rotate_right_in_range:
  assumes "90 * deltaTime \<le> angle (sprite s) + 360" "keyRightPressed s"
  shows "0 \<le> angle (sprite (rotate_right deltaTime s)) \<and>
         angle (sprite (rotate_right deltaTime s)) < 360"
  using assms fmodf_nonneg [of "angle (sprite s) - 90 * deltaTime + 360" 360]
  by (simp add: rotate_right_def ROTATION_INCREMENT_def)

subsection \<open>Rounding\<close>

lemma round_half_even_int [simp]: "round_half_even (of_int m) = m"
  by (simp add: round_half_even_def)


lemma binade_bounds:
  assumes "v \<noteq> 0"
  shows "2 powi binade v \<le> \<bar>v\<bar> \<and> \<bar>v\<bar> < 2 powi (binade v + 1)"
proof (cases "1 \<le> \<bar>v\<bar>")
  case True
  let ?n = "\<lfloor>\<bar>v\<bar>\<rfloor>"
  have n: "0 < ?n" using True by simp
  have bl: "1 \<le> bitlen ?n" using n bitlen_eq_zero_iff [of ?n] bitlen_nonneg [of ?n] by linarith
  from bitlen_bounds [OF n]
  have lo: "(2::int) ^ nat (bitlen ?n - 1) \<le> ?n" and hi: "?n < 2 ^ nat (bitlen ?n)" by simp_all
  have "(2::real) ^ nat (bitlen ?n - 1) = real_of_int (2 ^ nat (bitlen ?n - 1))" by simp
  also have "\<dots> \<le> real_of_int ?n" using lo by (simp only: of_int_le_iff)
  also have "\<dots> \<le> \<bar>v\<bar>" by (rule of_int_floor_le)
  finally have "(2::real) ^ nat (bitlen ?n - 1) \<le> \<bar>v\<bar>" .
  then have a: "2 powi (bitlen ?n - 1) \<le> \<bar>v\<bar>"
    using bl by (simp add: power_int_def)
  have h1: "real_of_int ?n + 1 \<le> 2 ^ nat (bitlen ?n)"
  proof -
    have "?n + 1 \<le> 2 ^ nat (bitlen ?n)" using hi by simp
    then have "real_of_int (?n + 1) \<le> real_of_int (2 ^ nat (bitlen ?n))"
      by (simp only: of_int_le_iff)
    then show ?thesis by simp
  qed
  have h2: "\<bar>v\<bar> < real_of_int ?n + 1" by linarith
  have "\<bar>v\<bar> < 2 ^ nat (bitlen ?n)" using h1 h2 by linarith
  then have b: "\<bar>v\<bar> < 2 powi (bitlen ?n)"
    using bl by (simp add: power_int_def)
  show ?thesis using True a b by (simp add: binade_def)
next
  case False
  let ?w = "1 / \<bar>v\<bar>"
  let ?m = "\<lceil>?w\<rceil> - 1"
  have v: "0 < \<bar>v\<bar>" "\<bar>v\<bar> < 1" using assms False by simp_all
  then have w: "1 < ?w" by simp
  then have m: "0 < ?m" by simp
  have bl: "1 \<le> bitlen ?m" using m bitlen_eq_zero_iff [of ?m] bitlen_nonneg [of ?m] by linarith
  from bitlen_bounds [OF m]
  have lo: "(2::int) ^ nat (bitlen ?m - 1) \<le> ?m" and hi: "?m < 2 ^ nat (bitlen ?m)" by simp_all
  have mw: "real_of_int ?m < ?w" "?w \<le> real_of_int ?m + 1" by linarith+
  have h1: "real_of_int ?m + 1 \<le> 2 ^ nat (bitlen ?m)"
  proof -
    have "?m + 1 \<le> 2 ^ nat (bitlen ?m)" using hi by linarith
    then have "real_of_int (?m + 1) \<le> real_of_int (2 ^ nat (bitlen ?m))"
      by (simp only: of_int_le_iff)
    then show ?thesis by simp
  qed
  have "?w \<le> 2 ^ nat (bitlen ?m)" using mw(2) h1 by linarith
  then have "1 \<le> 2 ^ nat (bitlen ?m) * \<bar>v\<bar>" using v by (simp add: field_simps)
  then have a: "2 powi (- bitlen ?m) \<le> \<bar>v\<bar>"
    using bl by (simp add: power_int_def field_simps)
  have h2: "(2::real) ^ nat (bitlen ?m - 1) \<le> real_of_int ?m"
  proof -
    have "real_of_int (2 ^ nat (bitlen ?m - 1)) \<le> real_of_int ?m"
      using lo by (simp only: of_int_le_iff)
    then show ?thesis by simp
  qed
  have "2 ^ nat (bitlen ?m - 1) < ?w" using mw(1) h2 by linarith
  then have "\<bar>v\<bar> < 1 / 2 ^ nat (bitlen ?m - 1)" using v by (simp add: field_simps)
  moreover have "- bitlen ?m + 1 = - int (nat (bitlen ?m - 1))" using bl by simp
  ultimately have b: "\<bar>v\<bar> < 2 powi (- bitlen ?m + 1)"
    by (simp only: power_int_minus power_int_of_nat inverse_eq_divide)
  show ?thesis using False a b by (simp add: binade_def)
qed


lemma binary_round_exact:
  assumes "v \<noteq> 0" "v / 2 powi (max (binade v - (int p - 1)) emin) = of_int m"
  shows "binary_round p emin v = v"
proof -
  let ?e = "max (binade v - (int p - 1)) emin"
  have "(2::real) powi ?e \<noteq> 0" by simp
  then have "v = of_int m * 2 powi ?e" using assms(2) by (simp add: field_simps)
  moreover have "binary_round p emin v = of_int (round_half_even (of_int m)) * 2 powi ?e"
    using assms by (simp add: binary_round_def Let_def)
  ultimately show ?thesis by simp
qed

lemma binary_round_int:
  assumes "\<bar>k\<bar> \<le> 2 ^ p" "emin \<le> 0" "0 < p"
  shows "binary_round p emin (of_int k) = of_int k"
proof (cases "k = 0")
  case True
  then show ?thesis by (simp add: binary_round_def)
next
  case False
  let ?v = "real_of_int k"
  let ?b = "binade ?v"
  let ?e = "max (?b - (int p - 1)) emin"
  have v: "?v \<noteq> 0" using False by simp
  from binade_bounds [OF v]
  have lo: "2 powi ?b \<le> \<bar>?v\<bar>" and hi: "\<bar>?v\<bar> < 2 powi (?b + 1)" by simp_all
  have k1: "1 \<le> \<bar>?v\<bar>" using False by (simp flip: of_int_abs)
  have kp: "\<bar>?v\<bar> \<le> 2 powi int p"
  proof -
    have "real_of_int \<bar>k\<bar> \<le> real_of_int (2 ^ p)" using assms(1) by (simp only: of_int_le_iff)
    then show ?thesis by simp
  qed
  have b0: "0 \<le> ?b"
  proof (rule ccontr)
    assume "\<not> 0 \<le> ?b"
    then have "?b + 1 \<le> 0" by simp
    then have "(2::real) powi (?b + 1) \<le> 2 powi 0" by (rule power_int_increasing) simp
    with hi k1 show False by simp
  qed
  have bp: "?b \<le> int p"
  proof (rule ccontr)
    assume "\<not> ?b \<le> int p"
    then have "int p + 1 \<le> ?b" by simp
    then have "(2::real) powi (int p + 1) \<le> 2 powi ?b" by (rule power_int_increasing) simp
    moreover have "(2::real) powi int p < 2 powi (int p + 1)"
      by (rule power_int_strict_increasing) simp_all
    ultimately show False using lo kp by linarith
  qed
  show ?thesis
  proof (cases "?b = int p")
    case True
    then have e: "?e = 1" using assms(2) by simp
    have "\<bar>?v\<bar> = 2 ^ p" using lo kp True by simp
    then have "?v = 2 ^ p \<or> ?v = - (2 ^ p)" by linarith
    moreover have "(2::real) ^ p = 2 * 2 ^ (p - 1)"
      using assms(3) by (cases p) simp_all
    ultimately have "?v / 2 powi ?e = of_int (2 ^ (p - 1)) \<or> ?v / 2 powi ?e = of_int (- (2 ^ (p - 1)))"
      unfolding e by auto
    then show ?thesis using binary_round_exact [OF v] by blast
  next
    case False
    then have e0: "?e \<le> 0" using bp assms(2) by simp
    then have "(2::real) powi ?e = 1 / 2 ^ nat (- ?e)"
      by (simp add: power_int_def field_simps)
    then have "?v / 2 powi ?e = of_int (k * 2 ^ nat (- ?e))" by simp
    then show ?thesis by (rule binary_round_exact [OF v])
  qed
qed




lemma binary32_int: "\<bar>k\<bar> \<le> 16777216 \<Longrightarrow> binary32 (of_int k) = of_int k"
  unfolding binary32_def by (rule binary_round_int) simp_all

lemma binary64_int: "\<bar>k\<bar> \<le> 9007199254740992 \<Longrightarrow> binary64 (of_int k) = of_int k"
  unfolding binary64_def by (rule binary_round_int) simp_all

lemma binary32_zero [simp]: "binary32 0 = 0"
  by (simp add: binary32_def binary_round_def)

lemma binary64_zero [simp]: "binary64 0 = 0"
  by (simp add: binary64_def binary_round_def)







text \<open>
  In the scenario of the forward move (window 800 by 800, marker at \<open>(400, 400)\<close>,
  heading 0, one second) no operation rounds, and the rounded and the exact
  \<open>update_location\<close> store the same position.
\<close>

lemma update_location_binary32_scenario:
  assumes "libm_cos 0 = 1" "libm_sin 0 = 0"
  shows "sprite (update_location_binary32 libm_cos libm_sin 1 800 800
           (s\<lparr>sprite := (sprite s)\<lparr>x := 400, y := 400, angle := 0\<rparr>\<rparr>)) =
         sprite (update_location 1 800 800
           (s\<lparr>sprite := (sprite s)\<lparr>x := 400, y := 400, angle := 0\<rparr>\<rparr>))"
proof -
  have i: "binary32 200 = 200" "binary32 600 = 600" "binary32 575 = 575" "binary32 625 = 625"
          "binary32 800 = 800" "binary32 400 = 400" "binary32 375 = 375" "binary32 425 = 425"
    using binary32_int [of 200] binary32_int [of 600] binary32_int [of 575]
          binary32_int [of 625] binary32_int [of 800] binary32_int [of 400]
          binary32_int [of 375] binary32_int [of 425]
    by simp_all
  have d: "binary64 200 = 200"
    using binary64_int [of 200] by simp
  show ?thesis
    by (simp add: update_location_binary32_def update_location_def MOVE_INCREMENT_def
          Let_def assms i d)
qed

subsection \<open>The polling loop\<close>

lemma quit_request_simps:
  "quit_request SDL_QUIT"
  "quit_request (SDL_KEYDOWN k) \<longleftrightarrow> k = SDLK_ESCAPE"
  "\<not> quit_request (SDL_KEYUP k)"
  "\<not> quit_request (SDL_WINDOWEVENT w d1 d2)"
  "\<not> quit_request SDL_OTHER"
  by (simp_all add: quit_request_def)

lemma apply_events_simps:
  "apply_events [] s = s"
  "apply_events (e # q) s = apply_events q (edge_transition e s)"
  by (simp_all add: apply_events_def)

lemma poll_events_no_quit:
  "\<forall>e \<in> set q. \<not> quit_request e \<Longrightarrow> poll_events q s = (True, [], apply_events q s)"
  by (induction q s rule: poll_events.induct)
     (simp_all add: quit_request_simps apply_events_simps)

lemma poll_events_quit:
  "\<forall>e \<in> set pre. \<not> quit_request e \<Longrightarrow> quit_request e \<Longrightarrow>
     poll_events (pre @ e # rest) s = (False, rest, apply_events pre s)"
proof (induction pre s rule: poll_events.induct)
  case (1 s)
  then show ?case by (cases e) (simp_all add: quit_request_simps apply_events_simps)
qed (simp_all add: quit_request_simps apply_events_simps)

subsection \<open>The colour of the marker\<close>

lemma change_color_palette:
  "palette_color (sprite s) \<Longrightarrow> palette_color (sprite (change_color c s))"
  by (simp add: change_color_def printf_def palette_color_def)

lemma update_pen_palette:
  "palette_color (sprite (update_pen p s)) = palette_color (sprite s)"
  by (simp add: update_pen_def palette_color_def)

lemma key_down_palette:
  "palette_color (sprite s) \<Longrightarrow> palette_color (sprite (key_down k s))"
  by (cases k) (simp_all add: change_color_palette update_pen_palette)

lemma key_up_sprite: "sprite (key_up k s) = sprite s"
  by (cases k) simp_all

lemma window_event_sprite: "sprite (window_event e d1 d2 s) = sprite s"
  by (cases e) (simp_all add: printf_def)

lemma poll_events_palette:
  "palette_color (sprite s) \<Longrightarrow> poll_events q s = (c, q', s') \<Longrightarrow> palette_color (sprite s')"
proof (induction q s rule: poll_events.induct)
  case (3 k q s)
  then show ?case by (auto simp add: key_down_palette split: if_splits)
qed (auto simp add: key_up_sprite window_event_sprite)

lemma add_line_sprite: "add_line realloc_ok ax ay bx by s = Inr s' \<Longrightarrow> sprite s' = sprite s"
  by (auto simp add: add_line_def Let_def split: if_splits)

lemma update_location_palette:
  "palette_color (sprite (update_location dt W H s)) = palette_color (sprite s)"
  by (simp add: update_location_def Let_def palette_color_def)

lemma rotate_palette:
  "palette_color (sprite (rotate_left dt s)) = palette_color (sprite s)"
  "palette_color (sprite (rotate_right dt s)) = palette_color (sprite s)"
  by (simp_all add: rotate_left_def rotate_right_def palette_color_def)

lemma move_forward_palette:
  "move_forward realloc_ok dt s = Inr s' \<Longrightarrow> palette_color (sprite s') = palette_color (sprite s)"
  by (auto simp add: move_forward_def Let_def update_location_palette
        split: if_splits dest!: add_line_sprite)

lemma handle_events_palette:
  assumes "palette_color (sprite s)"
      and "handle_events realloc_ok dt q s = Inr (c, q', s')"
  shows "palette_color (sprite s')"
proof -
  obtain c1 q1 s1 where p: "poll_events q s = (c1, q1, s1)"
    by (cases "poll_events q s") auto
  have s1: "palette_color (sprite s1)"
    using assms(1) p by (rule poll_events_palette)
  show ?thesis
  proof (cases c1)
    case False
    then show ?thesis using assms(2) p s1 by (simp add: handle_events_blocks)
  next
    case True
    then have "move_forward realloc_ok dt (rotate_right dt (rotate_left dt s1)) = Inr s'"
      using assms(2) p by (simp add: handle_events_blocks split: sum.splits)
    then have "palette_color (sprite s') = palette_color (sprite (rotate_right dt (rotate_left dt s1)))"
      by (rule move_forward_palette)
    then show ?thesis using s1 by (simp add: rotate_palette)
  qed
qed

subsection \<open>What the event transitions and the turns leave alone\<close>

lemma key_down_frame:
  "lines (key_down k s) = lines s" "lineCapacity (key_down k s) = lineCapacity s"
  "x (sprite (key_down k s)) = x (sprite s)" "y (sprite (key_down k s)) = y (sprite s)"
  by (cases k; simp add: update_pen_def change_color_def printf_def)+

lemma key_up_frame:
  "lines (key_up k s) = lines s" "lineCapacity (key_up k s) = lineCapacity s"
  by (cases k; simp)+

lemma window_event_frame:
  "lines (window_event e d1 d2 s) = lines s"
  "lineCapacity (window_event e d1 d2 s) = lineCapacity s"
  by (cases e; simp add: printf_def)+

lemma poll_events_frame:
  "poll_events q s = (c, q', s') \<Longrightarrow>
     lines s' = lines s \<and> lineCapacity s' = lineCapacity s \<and>
     x (sprite s') = x (sprite s) \<and> y (sprite s') = y (sprite s)"
proof (induction q s rule: poll_events.induct)
  case (3 k q s)
  then show ?case by (auto simp add: key_down_frame split: if_splits)
qed (auto simp add: key_up_frame key_up_sprite window_event_frame window_event_sprite)

lemma rotate_frame:
  "lines (rotate_left dt s) = lines s" "lineCapacity (rotate_left dt s) = lineCapacity s"
  "x (sprite (rotate_left dt s)) = x (sprite s)" "y (sprite (rotate_left dt s)) = y (sprite s)"
  "pen (sprite (rotate_left dt s)) = pen (sprite s)" "keyUpPressed (rotate_left dt s) = keyUpPressed s"
  "lines (rotate_right dt s) = lines s" "lineCapacity (rotate_right dt s) = lineCapacity s"
  "x (sprite (rotate_right dt s)) = x (sprite s)" "y (sprite (rotate_right dt s)) = y (sprite s)"
  "pen (sprite (rotate_right dt s)) = pen (sprite s)" "keyUpPressed (rotate_right dt s) = keyUpPressed s"
  by (simp_all add: rotate_left_def rotate_right_def)

lemma update_location_frame:
  "lines (update_location dt W H s) = lines s"
  "lineCapacity (update_location dt W H s) = lineCapacity s"
  "pen (sprite (update_location dt W H s)) = pen (sprite s)"
  "r (sprite (update_location dt W H s)) = r (sprite s)"
  "g (sprite (update_location dt W H s)) = g (sprite s)"
  "b (sprite (update_location dt W H s)) = b (sprite s)"
  by (simp_all add: update_location_def Let_def)

lemma add_line_appends:
  assumes "lineCount s < lineCapacity s \<or> realloc_ok (lineCapacity s * 2)"
  shows "\<exists>s'. add_line realloc_ok ax ay bx by s = Inr s' \<and> sprite s' = sprite s \<and>
           lines s' = lines s @ [\<lparr>x1 = ax, y1 = ay, x2 = bx, y2 = by,
             line_r = r (sprite s), line_g = g (sprite s), line_b = b (sprite s)\<rparr>]"
  using assms by (auto simp add: add_line_def Let_def)

lemma move_forward_appends:
  assumes "keyUpPressed s" "pen (sprite s)"
      and "lineCount s < lineCapacity s \<or> realloc_ok (lineCapacity s * 2)"
  shows "\<exists>s'. move_forward realloc_ok dt s = Inr s' \<and>
           sprite s' = sprite (update_location dt (windowWidth s) (windowHeight s) s) \<and>
           lines s' = lines s @ [\<lparr>x1 = x (sprite s), y1 = y (sprite s),
             x2 = x (sprite s'), y2 = y (sprite s'),
             line_r = r (sprite s'), line_g = g (sprite s'), line_b = b (sprite s')\<rparr>]"
proof -
  let ?s4 = "update_location dt (windowWidth s) (windowHeight s) s"
  have "lineCount ?s4 < lineCapacity ?s4 \<or> realloc_ok (lineCapacity ?s4 * 2)"
    using assms(3) by (simp add: lineCount_def update_location_frame)
  with add_line_appends
         [of ?s4 realloc_ok "x (sprite s)" "y (sprite s)" "x (sprite ?s4)" "y (sprite ?s4)"]
  obtain s' where a: "add_line realloc_ok (x (sprite s)) (y (sprite s)) (x (sprite ?s4)) (y (sprite ?s4)) ?s4 = Inr s'"
     and sp: "sprite s' = sprite ?s4"
     and l: "lines s' = lines ?s4 @ [\<lparr>x1 = x (sprite s), y1 = y (sprite s),
             x2 = x (sprite ?s4), y2 = y (sprite ?s4),
             line_r = r (sprite ?s4), line_g = g (sprite ?s4), line_b = b (sprite ?s4)\<rparr>]"
    by blast
  have "move_forward realloc_ok dt s = Inr s'"
    using assms(1,2) a by (simp add: move_forward_def Let_def update_location_frame)
  then show ?thesis using sp l by (simp add: update_location_frame)
qed

subsection \<open>Start-up\<close>

lemma startup_succeeds:
  "(\<exists>s. startup h = Inr s) \<longleftrightarrow>
     SDL_Init_ok h \<and> SDL_CreateWindow_ok h \<and> SDL_GL_CreateContext_ok h \<and> IMG_Init_ok h \<and>
     TTF_Init_ok h \<and> init_font_ok h \<and> malloc_ok h \<and> load_sprite_ok h"
  by (simp add: startup_def Let_def)

section \<open>Properties\<close>

text \<open>
  C1 (heading normalisation).  The property asks that turning with either key, for any
  elapsed time that is not negative, leaves a heading in \<open>[0, 360)\<close>.  The right-turn
  update adds 360 once before taking the remainder, which brings the sum back above zero
  only while the turn is less than a full circle beyond the heading.  With the Right key
  held, a heading of 10 degrees and a frame that took 5 seconds, the sum is
  \<open>10 - 450 + 360 = -80\<close>, the remainder keeps the sign of the sum, and the heading
  becomes \<open>-80\<close>.
\<close>

theorem right_turn_negative_heading:
  "handle_events realloc_ok 5 []
     (static_init\<lparr>keyRightPressed := True, sprite := (sprite static_init)\<lparr>angle := 10\<rparr>\<rparr>) =
   Inr (True, [],
     static_init\<lparr>keyRightPressed := True, sprite := (sprite static_init)\<lparr>angle := - 80\<rparr>\<rparr>)"
  by (simp add: handle_events_def static_init_def fmodf_def ROTATION_INCREMENT_def)




text \<open>
  C3 (the polling loop and quit requests).  \<open>handle_events\<close> takes the pending events in
  arrival order and applies the transition of each, until the queue is empty or a quit
  request is polled.  Without a quit request the whole queue is consumed and the call goes
  on as it would from the resulting state with nothing pending.  At a quit request the
  call returns \<open>False\<close> at once: only the events before the request have been applied, the
  level-triggered updates are skipped, and the events behind the request stay pending.
\<close>

theorem handle_events_stops_at_quit:
  "((\<forall>e \<in> set q. \<not> quit_request e) \<longrightarrow>
      handle_events realloc_ok deltaTime q s =
        handle_events realloc_ok deltaTime [] (apply_events q s)) \<and>
   ((\<forall>e \<in> set pre. \<not> quit_request e) \<and> quit_request e \<longrightarrow>
      handle_events realloc_ok deltaTime (pre @ e # rest) s =
        Inr (False, rest, apply_events pre s))"
  by (simp add: handle_events_def poll_events_no_quit poll_events_quit)

theorem handle_events_stops_at_quit_witness:
  "handle_events (\<lambda>n. True) 0 [SDL_KEYDOWN SDLK_3, SDL_QUIT, SDL_KEYDOWN SDLK_d] static_init =
     Inr (False, [SDL_KEYDOWN SDLK_d], change_color 3 static_init) \<and>
   handle_events (\<lambda>n. True) 0 [SDL_KEYDOWN SDLK_3, SDL_KEYDOWN SDLK_d] static_init =
     handle_events (\<lambda>n. True) 0 [] (update_pen True (change_color 3 static_init))"
  using handle_events_stops_at_quit
          [of "[SDL_KEYDOWN SDLK_3, SDL_KEYDOWN SDLK_d]" "\<lambda>n. True" 0 static_init
              "[SDL_KEYDOWN SDLK_3]" SDL_QUIT "[SDL_KEYDOWN SDLK_d]"]
  by (simp add: quit_request_def apply_events_def)

text \<open>
  A quit event followed by the D key: the call returns with the key event still pending
  and the pen still up, where a complete drain would have emptied the queue and put the
  pen down.
\<close>

theorem events_behind_quit_stay_pending:
  "handle_events (\<lambda>n. True) 0 [SDL_QUIT, SDL_KEYDOWN SDLK_d] static_init =
     Inr (False, [SDL_KEYDOWN SDLK_d], static_init) \<and>
   poll_events [SDL_QUIT, SDL_KEYDOWN SDLK_d] static_init \<noteq>
     spec_drain [SDL_QUIT, SDL_KEYDOWN SDLK_d] static_init \<and>
   spec_drain [SDL_QUIT, SDL_KEYDOWN SDLK_d] static_init =
     (False, [], update_pen True static_init) \<and>
   pen (sprite (update_pen True static_init)) \<and> \<not> pen (sprite static_init)"
  by (simp add: handle_events_def spec_drain_def apply_events_def quit_request_def
        update_pen_def static_init_def)



text \<open>
  C5 (colour options).  For an option outside 1..5 \<open>change_color\<close> returns the state it was
  given with one more line of output, the invalid-option message: the marker and the
  rest of the session are as before, and the function returns as for any other option.
  For the options 1 to 5 it stores black, blue, red, green and yellow, and changes
  nothing else but the output.
\<close>

theorem change_color_options:
  "(color_option < 1 \<or> 5 < color_option \<longrightarrow>
      change_color color_option s = s\<lparr>stdout := stdout s @ [''Invalid color option'']\<rparr>) \<and>
   change_color 1 s =
     s\<lparr>sprite := (sprite s)\<lparr>r := 0, g := 0, b := 0\<rparr>,
       stdout := stdout s @ [''Color changed to Black'']\<rparr> \<and>
   change_color 2 s =
     s\<lparr>sprite := (sprite s)\<lparr>r := 0, g := 0, b := 1\<rparr>,
       stdout := stdout s @ [''Color changed to Blue'']\<rparr> \<and>
   change_color 3 s =
     s\<lparr>sprite := (sprite s)\<lparr>r := 1, g := 0, b := 0\<rparr>,
       stdout := stdout s @ [''Color changed to Red'']\<rparr> \<and>
   change_color 4 s =
     s\<lparr>sprite := (sprite s)\<lparr>r := 0, g := 1, b := 0\<rparr>,
       stdout := stdout s @ [''Color changed to Green'']\<rparr> \<and>
   change_color 5 s =
     s\<lparr>sprite := (sprite s)\<lparr>r := 1, g := 1, b := 0\<rparr>,
       stdout := stdout s @ [''Color changed to Yellow'']\<rparr>"
  by (simp add: change_color_def printf_def)

theorem change_color_options_witness:
  "((6::int) < 1 \<or> (5::int) < 6) \<and>
   change_color 6 (static_init\<lparr>sprite := (sprite static_init)\<lparr>r := 1\<rparr>\<rparr>) =
     static_init\<lparr>sprite := (sprite static_init)\<lparr>r := 1\<rparr>, stdout := [''Invalid color option'']\<rparr>"
  using change_color_options [of 6 "static_init\<lparr>sprite := (sprite static_init)\<lparr>r := 1\<rparr>\<rparr>"]
  by (simp add: static_init_def)

text \<open>
  C6 (palette names).  After \<open>change_color\<close> with option 1, 2, 3, 4 or 5 the overlay names
  the colour Black, Blue, Red, Green or Yellow; a marker whose colour is none of the
  five palette entries is named Custom.
\<close>

theorem palette_names:
  "line_color_name (sprite (change_color 1 s)) = ''Black'' \<and>
   line_color_name (sprite (change_color 2 s)) = ''Blue'' \<and>
   line_color_name (sprite (change_color 3 s)) = ''Red'' \<and>
   line_color_name (sprite (change_color 4 s)) = ''Green'' \<and>
   line_color_name (sprite (change_color 5 s)) = ''Yellow'' \<and>
   ((r sp, g sp, b sp) \<notin> {(0, 0, 0), (0, 0, 1), (1, 0, 0), (0, 1, 0), (1, 1, 0)} \<longrightarrow>
      line_color_name sp = ''Custom'')"
  by (simp add: change_color_def printf_def line_color_name_def)

theorem palette_names_witness:
  "line_color_name ((sprite static_init)\<lparr>r := 1 / 2, g := 1 / 2, b := 1 / 2\<rparr>) = ''Custom''"
  using palette_names [of static_init "(sprite static_init)\<lparr>r := 1 / 2, g := 1 / 2, b := 1 / 2\<rparr>"]
  by simp

text \<open>
  C7 (segments keep their colour).  \<open>change_color\<close> leaves the trail as it is, whatever
  the option; in particular a segment appended by \<open>add_line\<close> still carries, after a
  later \<open>change_color\<close>, the end points it was given and the colour the marker had when it
  was appended.
\<close>

theorem change_color_keeps_trail:
  "lines (change_color color_option s) = lines s \<and>
   (add_line realloc_ok ax ay bx by s = Inr s' \<longrightarrow>
      lines (change_color color_option s') =
        lines s @ [\<lparr>x1 = ax, y1 = ay, x2 = bx, y2 = by,
                    line_r = r (sprite s), line_g = g (sprite s), line_b = b (sprite s)\<rparr>])"
  by (auto simp add: change_color_def printf_def add_line_def Let_def split: if_splits)

theorem change_color_keeps_trail_witness:
  "add_line (\<lambda>n. True) 1 2 3 4 static_init =
     Inr (static_init\<lparr>lines :=
            [\<lparr>x1 = 1, y1 = 2, x2 = 3, y2 = 4, line_r = 0, line_g = 0, line_b = 0\<rparr>]\<rparr>) \<and>
   lines (change_color 3 (static_init\<lparr>lines :=
            [\<lparr>x1 = 1, y1 = 2, x2 = 3, y2 = 4, line_r = 0, line_g = 0, line_b = 0\<rparr>]\<rparr>)) =
     [\<lparr>x1 = 1, y1 = 2, x2 = 3, y2 = 4, line_r = 0, line_g = 0, line_b = 0\<rparr>]"
proof -
  have a: "add_line (\<lambda>n. True) 1 2 3 4 static_init =
     Inr (static_init\<lparr>lines :=
            [\<lparr>x1 = 1, y1 = 2, x2 = 3, y2 = 4, line_r = 0, line_g = 0, line_b = 0\<rparr>]\<rparr>)"
    by (simp add: add_line_def static_init_def lineCount_def)
  show ?thesis
    using change_color_keeps_trail [of 3 _ "\<lambda>n. True" 1 2 3 4 static_init] a
    by (simp add: static_init_def)
qed

text \<open>
  C8 (the marker colour is a palette entry).  In every state the main loop reaches, the
  colour of the marker is one of the five palette entries, so the overlay never names it
  Custom.
\<close>

theorem marker_color_in_palette:
  "reachable s \<Longrightarrow>
     palette_color (sprite s) \<and> line_color_name (sprite s) \<noteq> ''Custom''"
proof -
  assume "reachable s"
  then have "palette_color (sprite s)"
  proof (induction rule: reachable.induct)
    case (reachable_start h s)
    then show ?case
      by (auto simp add: startup_def static_init_def Let_def palette_color_def split: if_splits)
  next
    case (reachable_frame s deltaTime realloc_ok q running q' s')
    then show ?case using handle_events_palette by blast
  qed
  then show ?thesis
    by (auto simp add: palette_color_def line_color_name_def)
qed

theorem marker_color_in_palette_witness:
  "reachable (change_color 3
      (static_init\<lparr>projection := (800, 800),
                    sprite := (sprite static_init)\<lparr>x := 400, y := 400\<rparr>\<rparr>)) \<and>
   line_color_name (sprite (change_color 3
      (static_init\<lparr>projection := (800, 800),
                    sprite := (sprite static_init)\<lparr>x := 400, y := 400\<rparr>\<rparr>))) = ''Red''"
proof -
  let ?h = "\<lparr>SDL_Init_ok = True, SDL_CreateWindow_ok = True, SDL_GL_CreateContext_ok = True,
             IMG_Init_ok = True, TTF_Init_ok = True, init_font_ok = True, malloc_ok = True,
             load_sprite_ok = True\<rparr>"
  let ?s0 = "static_init\<lparr>projection := (800, 800),
                          sprite := (sprite static_init)\<lparr>x := 400, y := 400\<rparr>\<rparr>"
  have "startup ?h = Inr ?s0"
    by (simp add: startup_def static_init_def WINDOW_WIDTH_def WINDOW_HEIGHT_def)
  then have r0: "reachable ?s0" by (rule reachable_start)
  have "handle_events (\<lambda>n. True) 0 [SDL_KEYDOWN SDLK_3] ?s0 = Inr (True, [], change_color 3 ?s0)"
    by (simp add: handle_events_def static_init_def change_color_def printf_def)
  with r0 have r1: "reachable (change_color 3 ?s0)"
    using reachable_frame [of ?s0 0 "\<lambda>n. True" "[SDL_KEYDOWN SDLK_3]" True "[]"] by simp
  show ?thesis
    using marker_color_in_palette [OF r1] r1
    by (simp add: line_color_name_def change_color_def printf_def)
qed

text \<open>
  C9 (one segment for each frame of forward movement).  When no quit request is pending
  and, once the pending events are applied, the Up key is held and the pen is down,
  \<open>handle_events\<close> appends exactly one segment, from the position before the move to
  the position after it, in the marker's colour, provided the buffer has room or can
  grow.  This is also so when clamping leaves the marker where it was: the segment then
  has length zero and the trail is one longer all the same.
\<close>

theorem forward_appends_one_segment:
  assumes "\<forall>e \<in> set q. \<not> quit_request e"
      and "keyUpPressed (apply_events q s)" and "pen (sprite (apply_events q s))"
      and "lineCount s < lineCapacity s \<or> realloc_ok (lineCapacity s * 2)"
  shows "\<exists>s'. handle_events realloc_ok deltaTime q s = Inr (True, [], s') \<and>
           lines s' = lines s @ [\<lparr>x1 = x (sprite s), y1 = y (sprite s),
             x2 = x (sprite s'), y2 = y (sprite s'),
             line_r = r (sprite s'), line_g = g (sprite s'), line_b = b (sprite s')\<rparr>] \<and>
           length (lines s') = length (lines s) + 1"
proof -
  let ?s1 = "apply_events q s"
  let ?s3 = "rotate_right deltaTime (rotate_left deltaTime ?s1)"
  have p: "poll_events q s = (True, [], ?s1)"
    using assms(1) by (rule poll_events_no_quit)
  from poll_events_frame [OF p]
  have f: "lines ?s1 = lines s" "lineCapacity ?s1 = lineCapacity s"
          "x (sprite ?s1) = x (sprite s)" "y (sprite ?s1) = y (sprite s)"
    by simp_all
  have "keyUpPressed ?s3" "pen (sprite ?s3)"
    using assms(2,3) by (simp_all add: rotate_frame)
  moreover have "lineCount ?s3 < lineCapacity ?s3 \<or> realloc_ok (lineCapacity ?s3 * 2)"
    using assms(4) f by (simp add: lineCount_def rotate_frame)
  ultimately obtain s' where m: "move_forward realloc_ok deltaTime ?s3 = Inr s'"
    and l: "lines s' = lines ?s3 @ [\<lparr>x1 = x (sprite ?s3), y1 = y (sprite ?s3),
             x2 = x (sprite s'), y2 = y (sprite s'),
             line_r = r (sprite s'), line_g = g (sprite s'), line_b = b (sprite s')\<rparr>]"
    using move_forward_appends [of ?s3 realloc_ok deltaTime] by blast
  have "handle_events realloc_ok deltaTime q s = Inr (True, [], s')"
    using p m by (simp add: handle_events_blocks)
  moreover have "lines s' = lines s @ [\<lparr>x1 = x (sprite s), y1 = y (sprite s),
             x2 = x (sprite s'), y2 = y (sprite s'),
             line_r = r (sprite s'), line_g = g (sprite s'), line_b = b (sprite s')\<rparr>]"
    using l f by (simp add: rotate_frame)
  ultimately show ?thesis by simp
qed

text \<open>
  The marker against the right edge of the 800 by 800 window, heading 0: it stays at
  \<open>(775, 400)\<close> and the segment from \<open>(775, 400)\<close> to \<open>(775, 400)\<close> is appended.
\<close>

theorem forward_appends_one_segment_witness:
  "handle_events (\<lambda>n. True) 1 []
     (static_init\<lparr>keyUpPressed := True,
        sprite := (sprite static_init)\<lparr>x := 775, y := 400, pen := True\<rparr>\<rparr>) =
   Inr (True, [],
     static_init\<lparr>keyUpPressed := True,
        sprite := (sprite static_init)\<lparr>x := 775, y := 400, pen := True\<rparr>,
        lines := [\<lparr>x1 = 775, y1 = 400, x2 = 775, y2 = 400,
                   line_r = 0, line_g = 0, line_b = 0\<rparr>]\<rparr>)"
proof -
  let ?s = "static_init\<lparr>keyUpPressed := True,
        sprite := (sprite static_init)\<lparr>x := 775, y := 400, pen := True\<rparr>\<rparr>"
  have p: "\<forall>e \<in> set []. \<not> quit_request e" by simp
  have k: "keyUpPressed (apply_events [] ?s)" "pen (sprite (apply_events [] ?s))"
    by (simp_all add: apply_events_def)
  have c: "lineCount ?s < lineCapacity ?s \<or> (\<lambda>n. True) (lineCapacity ?s * 2)" by simp
  from forward_appends_one_segment [OF p k c, of 1]
  obtain s' where h: "handle_events (\<lambda>n. True) 1 [] ?s = Inr (True, [], s')"
    and l: "lines s' = lines ?s @ [\<lparr>x1 = x (sprite ?s), y1 = y (sprite ?s),
             x2 = x (sprite s'), y2 = y (sprite s'),
             line_r = r (sprite s'), line_g = g (sprite s'), line_b = b (sprite s')\<rparr>]"
    by blast
  have "handle_events (\<lambda>n. True) 1 [] ?s =
    Inr (True, [], ?s\<lparr>lines := [\<lparr>x1 = 775, y1 = 400, x2 = 775, y2 = 400,
                   line_r = 0, line_g = 0, line_b = 0\<rparr>]\<rparr>)"
    by (simp add: handle_events_def update_location_def add_line_def lineCount_def
          static_init_def MOVE_INCREMENT_def WINDOW_WIDTH_def WINDOW_HEIGHT_def Let_def)
  then show ?thesis by simp
qed

text \<open>
  With a quit request pending the call returns before the forward update: the Up key is
  held and the pen is down, and no segment is appended.
\<close>

theorem quit_frame_appends_nothing:
  "keyUpPressed (static_init\<lparr>keyUpPressed := True,
        sprite := (sprite static_init)\<lparr>x := 400, y := 400, pen := True\<rparr>\<rparr>) \<and>
   pen (sprite (static_init\<lparr>keyUpPressed := True,
        sprite := (sprite static_init)\<lparr>x := 400, y := 400, pen := True\<rparr>\<rparr>)) \<and>
   handle_events (\<lambda>n. True) 1 [SDL_QUIT]
     (static_init\<lparr>keyUpPressed := True,
        sprite := (sprite static_init)\<lparr>x := 400, y := 400, pen := True\<rparr>\<rparr>) =
   Inr (False, [],
     static_init\<lparr>keyUpPressed := True,
        sprite := (sprite static_init)\<lparr>x := 400, y := 400, pen := True\<rparr>\<rparr>) \<and>
   lines (static_init\<lparr>keyUpPressed := True,
        sprite := (sprite static_init)\<lparr>x := 400, y := 400, pen := True\<rparr>\<rparr>) = []"
  by (simp add: handle_events_def static_init_def)

text \<open>
  C10 (state at start-up).  When every initialisation step succeeds, the marker is at
  the centre of the 800 by 800 window, its heading is 0, the pen is up, the colour is
  black, and the trail is empty.
\<close>

theorem startup_state:
  assumes "startup h = Inr s"
  shows "x (sprite s) = real_of_int (windowWidth s) / 2 \<and>
         y (sprite s) = real_of_int (windowHeight s) / 2 \<and>
         windowWidth s = 800 \<and> windowHeight s = 800 \<and>
         angle (sprite s) = 0 \<and> \<not> pen (sprite s) \<and>
         r (sprite s) = 0 \<and> g (sprite s) = 0 \<and> b (sprite s) = 0 \<and>
         lines s = [] \<and> lineCount s = 0"
  using assms
  by (auto simp add: startup_def static_init_def Let_def lineCount_def WINDOW_WIDTH_def
        WINDOW_HEIGHT_def split: if_splits)

theorem startup_state_witness:
  "startup \<lparr>SDL_Init_ok = True, SDL_CreateWindow_ok = True, SDL_GL_CreateContext_ok = True,
             IMG_Init_ok = True, TTF_Init_ok = True, init_font_ok = True, malloc_ok = True,
             load_sprite_ok = True\<rparr> =
     Inr (static_init\<lparr>projection := (800, 800),
                      sprite := (sprite static_init)\<lparr>x := 400, y := 400\<rparr>\<rparr>) \<and>
   x (sprite (static_init\<lparr>projection := (800, 800),
                      sprite := (sprite static_init)\<lparr>x := 400, y := 400\<rparr>\<rparr>)) = 400 \<and>
   lines (static_init\<lparr>projection := (800, 800),
                      sprite := (sprite static_init)\<lparr>x := 400, y := 400\<rparr>\<rparr>) = []"
proof -
  let ?h = "\<lparr>SDL_Init_ok = True, SDL_CreateWindow_ok = True, SDL_GL_CreateContext_ok = True,
             IMG_Init_ok = True, TTF_Init_ok = True, init_font_ok = True, malloc_ok = True,
             load_sprite_ok = True\<rparr>"
  let ?s0 = "static_init\<lparr>projection := (800, 800),
                          sprite := (sprite static_init)\<lparr>x := 400, y := 400\<rparr>\<rparr>"
  have st: "startup ?h = Inr ?s0"
    by (simp add: startup_def static_init_def WINDOW_WIDTH_def WINDOW_HEIGHT_def)
  show ?thesis using startup_state [OF st] st by simp
qed

end
